theory Spec2Isabelle
  imports Main "HOL-Library.AList"
begin

section \<open>Run-time values\<close>

text \<open>
  TypeScript types are erased before the program runs, so the snippets are modelled on
  the values JavaScript computes with.  An object is the list of its own properties in
  insertion order; reading a key takes its first binding.  \<open>JError m\<close> is the object
  created by \<^verbatim>\<open>new Error(m)\<close>.  Numbers are the integers, printed in decimal (the
  only numeric literal of the source is \<^verbatim>\<open>1\<close>).  Members inherited from the built-in prototypes other than the
  \<^verbatim>\<open>name\<close> of an error are not modelled: the source reads the keys \<^verbatim>\<open>name\<close>,
  \<^verbatim>\<open>email\<close> and \<^verbatim>\<open>role\<close> only.
\<close>

datatype jsval =
    JUndefined
  | JNull
  | JBool bool
  | JNum int
  | JStr string
  | JObj "(string \<times> jsval) list"
  | JError string

text \<open>
  \<open>TypeError\<close> is what JavaScript throws on a property read from \<^verbatim>\<open>null\<close> or
  \<^verbatim>\<open>undefined\<close>, and on \<^verbatim>\<open>in\<close> applied to a primitive.  \<open>Unmodelled\<close> marks
  what is left out: a comparison \<^verbatim>\<open>==\<close> that needs a coercion between values of
  different kinds, or the identity of two objects, and the spread of an error object.
  No snippet of the source comes there on values of its declared types.
\<close>

datatype error = TypeError | Unmodelled

fun is_nullish :: "jsval \<Rightarrow> bool" where
  "is_nullish JUndefined = True"
| "is_nullish JNull = True"
| "is_nullish _ = False"

text \<open>The property read \<^verbatim>\<open>v.k\<close>.\<close>

fun get_prop :: "jsval \<Rightarrow> string \<Rightarrow> error + jsval" where
  "get_prop JUndefined k = Inl TypeError"
| "get_prop JNull k = Inl TypeError"
| "get_prop (JObj fs) k = Inr (case map_of fs k of None \<Rightarrow> JUndefined | Some v \<Rightarrow> v)"
| "get_prop (JError m) k =
     Inr (if k = ''message'' then JStr m else if k = ''name'' then JStr ''Error'' else JUndefined)"
| "get_prop _ k = Inr JUndefined"

text \<open>The operator \<^verbatim>\<open>k in v\<close>.\<close>

fun has_property :: "string \<Rightarrow> jsval \<Rightarrow> error + bool" where
  "has_property k (JObj fs) = Inr (k \<in> set (map fst fs))"
| "has_property k (JError m) = Inr (k = ''message'' \<or> k = ''name'')"
| "has_property k _ = Inl TypeError"

text \<open>The conversion to a boolean that \<^verbatim>\<open>if\<close> and \<^verbatim>\<open>?:\<close> apply to their condition.\<close>

fun truthy :: "jsval \<Rightarrow> bool" where
  "truthy JUndefined = False"
| "truthy JNull = False"
| "truthy (JBool b) = b"
| "truthy (JNum n) = (n \<noteq> 0)"
| "truthy (JStr s) = (s \<noteq> [])"
| "truthy (JObj fs) = True"
| "truthy (JError m) = True"

text \<open>
  The comparison \<^verbatim>\<open>a == b\<close>: \<^verbatim>\<open>null\<close> and \<^verbatim>\<open>undefined\<close> equal each other and
  nothing else, and two primitives of one kind are compared by value.
\<close>

definition loose_eq :: "jsval \<Rightarrow> jsval \<Rightarrow> error + bool" where
  "loose_eq a b =
     (if is_nullish a \<or> is_nullish b then Inr (is_nullish a \<and> is_nullish b)
      else case (a, b) of
          (JStr x, JStr y) \<Rightarrow> Inr (x = y)
        | (JNum x, JNum y) \<Rightarrow> Inr (x = y)
        | (JBool x, JBool y) \<Rightarrow> Inr (x = y)
        | _ \<Rightarrow> Inl Unmodelled)"

text \<open>
  The string a template literal \<^verbatim>\<open>${v}\<close> puts in place of a value.  An object is
  converted by its \<^verbatim>\<open>toString\<close> method, then by \<^verbatim>\<open>valueOf\<close>.  A plain object
  inherits a \<^verbatim>\<open>toString\<close> that yields \<^verbatim>\<open>[object Object]\<close>.  No value here is a
  function, so an own property \<^verbatim>\<open>toString\<close> hides the inherited method and cannot be
  called; \<^verbatim>\<open>valueOf\<close>, own or inherited, yields no primitive either, and the conversion
  throws a \<open>TypeError\<close>.
\<close>

fun show_nat :: "nat \<Rightarrow> string" where
  "show_nat n =
     (if n < 10 then [''0123456789'' ! n]
      else show_nat (n div 10) @ [''0123456789'' ! (n mod 10)])"

definition show_int :: "int \<Rightarrow> string" where
  "show_int i = (if i < 0 then ''-'' @ show_nat (nat (- i)) else show_nat (nat i))"

fun to_string :: "jsval \<Rightarrow> error + string" where
  "to_string JUndefined = Inr ''undefined''"
| "to_string JNull = Inr ''null''"
| "to_string (JBool b) = Inr (if b then ''true'' else ''false'')"
| "to_string (JNum n) = Inr (show_int n)"
| "to_string (JStr s) = Inr s"
| "to_string (JObj fs) =
     (if ''toString'' \<in> set (map fst fs) then Inl TypeError else Inr ''[object Object]'')"
| "to_string (JError m) = Inr (if m = [] then ''Error'' else ''Error: '' @ m)"

section \<open>The domain module\<close>

text \<open>
  \<^verbatim>\<open>type User = { name: string; email: string }\<close> and
  \<^verbatim>\<open>type Admin = User & { role: string }\<close>.  A type is the set of values the compiler
  assigns to it: an object that has the listed properties with values of the listed
  types.  Nothing more is asked of the object, so it may have further properties.
\<close>

fun is_string :: "jsval \<Rightarrow> bool" where
  "is_string (JStr s) = True"
| "is_string _ = False"

fun has_typed :: "string \<Rightarrow> (jsval \<Rightarrow> bool) \<Rightarrow> jsval \<Rightarrow> bool" where
  "has_typed k T (JObj fs) = (case map_of fs k of None \<Rightarrow> False | Some v \<Rightarrow> T v)"
| "has_typed k T _ = False"

definition User :: "jsval \<Rightarrow> bool" where
  "User v = (has_typed ''name'' is_string v \<and> has_typed ''email'' is_string v)"

definition Admin :: "jsval \<Rightarrow> bool" where
  "Admin v = (User v \<and> has_typed ''role'' is_string v)"

text \<open>
  \<^verbatim>\<open>export const users: User[] = [{ name: "A", email: "A@A" }, { name: "B", email: "B@B" }]\<close>
\<close>

definition users :: "jsval list" where
  "users =
     [JObj [(''name'', JStr ''A''), (''email'', JStr ''A@A'')],
      JObj [(''name'', JStr ''B''), (''email'', JStr ''B@B'')]]"

text \<open>
  \<^verbatim>\<open>type Success<T> = { _type: "success"; value: T }\<close>,
  \<^verbatim>\<open>type Error<E> = { _type: "error"; error: E }\<close> and
  \<^verbatim>\<open>type Result<E, T> = Success<T> | Error<E>\<close>; the type parameters are predicates
  on values.  \<open>JsError\<close> is the built-in class \<^verbatim>\<open>Error\<close> that the snippets pass for
  \<open>E\<close>.
\<close>

definition is_literal :: "string \<Rightarrow> jsval \<Rightarrow> bool" where
  "is_literal s v = (v = JStr s)"

definition Success :: "(jsval \<Rightarrow> bool) \<Rightarrow> jsval \<Rightarrow> bool" where
  "Success T v = (has_typed ''_type'' (is_literal ''success'') v \<and> has_typed ''value'' T v)"

definition Error :: "(jsval \<Rightarrow> bool) \<Rightarrow> jsval \<Rightarrow> bool" where
  "Error E v = (has_typed ''_type'' (is_literal ''error'') v \<and> has_typed ''error'' E v)"

definition Result :: "(jsval \<Rightarrow> bool) \<Rightarrow> (jsval \<Rightarrow> bool) \<Rightarrow> jsval \<Rightarrow> bool" where
  "Result E T v = (Success T v \<or> Error E v)"

fun JsError :: "jsval \<Rightarrow> bool" where
  "JsError (JError m) = True"
| "JsError _ = False"

section \<open>The state of a run\<close>

text \<open>
  \<^verbatim>\<open>const\<close> fixes the binding \<^verbatim>\<open>users\<close>, not the array it names: the array could
  be written to.  The state of a run therefore holds the current contents of that array,
  and the lines \<^verbatim>\<open>console.log\<close> has written.  \<open>module_load\<close> is the state after the
  domain module has been evaluated.
\<close>

record runtime =
  users_now :: "jsval list"
  console :: "string list"

definition module_load :: runtime where
  "module_load = \<lparr>users_now = users, console = []\<rparr>"

definition console_log :: "string \<Rightarrow> runtime \<Rightarrow> runtime" where
  "console_log line s = s\<lparr>console := console s @ [line]\<rparr>"

section \<open>The array methods the snippets call\<close>

text \<open>
  \<^verbatim>\<open>Array.prototype.find\<close> walks the indices upwards from \<open>0\<close> and returns the first
  element whose callback result is true, or \<^verbatim>\<open>undefined\<close>; an exception of the
  callback ends the walk.  The loops are written as they run, with \<open>None\<close> for a loop
  that never ends, so that their termination is a theorem and not an assumption.
\<close>

partial_function (option) find_from ::
  "(jsval \<Rightarrow> error + bool) \<Rightarrow> jsval list \<Rightarrow> nat \<Rightarrow> (error + jsval) option" where
  "find_from p xs k =
     (if k < length xs then
        (case p (xs ! k) of
           Inl e \<Rightarrow> Some (Inl e)
         | Inr b \<Rightarrow> if b then Some (Inr (xs ! k)) else find_from p xs (k + 1))
      else Some (Inr JUndefined))"

declare find_from.simps [code]

definition array_find :: "(jsval \<Rightarrow> error + bool) \<Rightarrow> jsval list \<Rightarrow> (error + jsval) option" where
  "array_find p xs = find_from p xs 0"

text \<open>\<^verbatim>\<open>Array.prototype.reduce\<close> with an initial value.\<close>

partial_function (option) reduce_from ::
  "('a \<Rightarrow> jsval \<Rightarrow> error + 'a) \<Rightarrow> jsval list \<Rightarrow> nat \<Rightarrow> 'a \<Rightarrow> (error + 'a) option" where
  "reduce_from f xs k acc =
     (if k < length xs then
        (case f acc (xs ! k) of
           Inl e \<Rightarrow> Some (Inl e)
         | Inr acc' \<Rightarrow> reduce_from f xs (k + 1) acc')
      else Some (Inr acc))"

declare reduce_from.simps [code]

definition array_reduce ::
  "('a \<Rightarrow> jsval \<Rightarrow> error + 'a) \<Rightarrow> 'a \<Rightarrow> jsval list \<Rightarrow> (error + 'a) option" where
  "array_reduce f init xs = reduce_from f xs 0 init"

text \<open>The two loops as recursions on the list, for the proofs.\<close>

fun first_match :: "(jsval \<Rightarrow> error + bool) \<Rightarrow> jsval list \<Rightarrow> error + jsval" where
  "first_match p [] = Inr JUndefined"
| "first_match p (x # xs) =
     (case p x of Inl e \<Rightarrow> Inl e | Inr b \<Rightarrow> if b then Inr x else first_match p xs)"

fun fold_result :: "('a \<Rightarrow> jsval \<Rightarrow> error + 'a) \<Rightarrow> jsval list \<Rightarrow> 'a \<Rightarrow> error + 'a" where
  "fold_result f [] acc = Inr acc"
| "fold_result f (x # xs) acc =
     (case f acc x of Inl e \<Rightarrow> Inl e | Inr acc' \<Rightarrow> fold_result f xs acc')"

section \<open>Strict null check\<close>

text \<open>
  \<^verbatim>\<open>function warnUser(user: User) { const { name, email } = user; console.log(...) }\<close>.
  The destructuring reads \<^verbatim>\<open>name\<close>, then \<^verbatim>\<open>email\<close>, and throws on \<^verbatim>\<open>null\<close> and
  \<^verbatim>\<open>undefined\<close>.  The template literal converts \<^verbatim>\<open>name\<close>, then \<^verbatim>\<open>email\<close>, to a
  string; a conversion that throws ends the call before \<^verbatim>\<open>console.log\<close> is reached.
  The argument is any value: the annotation \<^verbatim>\<open>User\<close> is gone when the function runs.
\<close>

definition warnUser :: "jsval \<Rightarrow> runtime \<Rightarrow> (error + jsval) \<times> runtime" where
  "warnUser user s =
     (case get_prop user ''name'' of
        Inl e \<Rightarrow> (Inl e, s)
      | Inr name \<Rightarrow>
          (case get_prop user ''email'' of
             Inl e \<Rightarrow> (Inl e, s)
           | Inr email \<Rightarrow>
               (case to_string name of
                  Inl e \<Rightarrow> (Inl e, s)
                | Inr name_text \<Rightarrow>
                    (case to_string email of
                       Inl e \<Rightarrow> (Inl e, s)
                     | Inr email_text \<Rightarrow>
                         (Inr JUndefined,
                          console_log (''Hi '' @ name_text
                                       @ ''! We're warning about something on '' @ email_text)
                            s)))))"

text \<open>
  \<^verbatim>\<open>function getUser(yes = true) { return yes ? { name: "A", email: "A@A" } : null; }\<close>;
  \<open>None\<close> is the call without an argument.
\<close>

definition getUser :: "bool option \<Rightarrow> jsval" where
  "getUser arg =
     (let yes = (case arg of None \<Rightarrow> True | Some b \<Rightarrow> b)
      in if yes then JObj [(''name'', JStr ''A''), (''email'', JStr ''A@A'')] else JNull)"

section \<open>Casting with \<^verbatim>\<open>as\<close>\<close>

text \<open>The second \<^verbatim>\<open>getUser\<close>, without a parameter.\<close>

definition getUser_plain :: jsval where
  "getUser_plain = JObj [(''name'', JStr ''A''), (''email'', JStr ''A@A'')]"

text \<open>The callback \<^verbatim>\<open>(u) => u.name == name\<close>.\<close>

definition name_is :: "string \<Rightarrow> jsval \<Rightarrow> error + bool" where
  "name_is name u =
     (case get_prop u ''name'' of Inl e \<Rightarrow> Inl e | Inr n \<Rightarrow> loose_eq n (JStr name))"

text \<open>
  \<^verbatim>\<open>function findUser(users: User[]) { return users.find((u) => u.name == "A"); }\<close>,
  the first \<^verbatim>\<open>findUser\<close>, whose parameter hides the exported array.
\<close>

definition findUser_in :: "jsval list \<Rightarrow> (error + jsval) option" where
  "findUser_in us = array_find (name_is ''A'') us"

text \<open>
  The object \<^verbatim>\<open>{ ...current, id: 1 }\<close>: the own enumerable properties of
  \<^verbatim>\<open>current\<close> (the characters of a string under their indices, none for the other
  primitives), then \<^verbatim>\<open>id\<close>.  Which own properties of an error object are enumerable
  differs between engines, so that case is left out.
\<close>

fun spread :: "jsval \<Rightarrow> error + (string \<times> jsval) list" where
  "spread (JObj fs) = Inr fs"
| "spread (JStr s) = Inr (zip (map show_nat [0..<length s]) (map (\<lambda>c. JStr [c]) s))"
| "spread (JError m) = Inl Unmodelled"
| "spread _ = Inr []"

definition with_id :: "jsval \<Rightarrow> error + jsval" where
  "with_id current =
     (case spread current of
        Inl e \<Rightarrow> Inl e
      | Inr fs \<Rightarrow> Inr (JObj (AList.update ''id'' (JNum 1) fs)))"

text \<open>
  \<^verbatim>\<open>users.reduce((_users, current) => _users.concat({ ...current, id: 1 }), [])\<close>,
  three times: \<^verbatim>\<open>n1\<close>, \<^verbatim>\<open>n2\<close> and \<^verbatim>\<open>n3\<close> differ in their annotations only.
  \<^verbatim>\<open>concat\<close> returns a new array and leaves the accumulator \<^verbatim>\<open>_users\<close> (here
  \<open>acc\<close>) as it is.
\<close>

definition n1 :: "runtime \<Rightarrow> ((error + jsval list) \<times> runtime) option" where
  "n1 s =
     (case array_reduce
             (\<lambda>acc current. case with_id current of Inl e \<Rightarrow> Inl e | Inr item \<Rightarrow> Inr (acc @ [item]))
             [] (users_now s) of
        None \<Rightarrow> None
      | Some r \<Rightarrow> Some (r, s))"

definition n2 :: "runtime \<Rightarrow> ((error + jsval list) \<times> runtime) option" where
  "n2 s =
     (case array_reduce
             (\<lambda>acc current. case with_id current of Inl e \<Rightarrow> Inl e | Inr item \<Rightarrow> Inr (acc @ [item]))
             [] (users_now s) of
        None \<Rightarrow> None
      | Some r \<Rightarrow> Some (r, s))"

definition n3 :: "runtime \<Rightarrow> ((error + jsval list) \<times> runtime) option" where
  "n3 s =
     (case array_reduce
             (\<lambda>acc current. case with_id current of Inl e \<Rightarrow> Inl e | Inr item \<Rightarrow> Inr (acc @ [item]))
             [] (users_now s) of
        None \<Rightarrow> None
      | Some r \<Rightarrow> Some (r, s))"

section \<open>Return types\<close>

text \<open>
  The four lookups of the section on return types.  Each one is
  \<^verbatim>\<open>const user = users.find((u) => u.name == name);
  return user ? { value: user, _type: "success" } : { error: new Error("Not found."), _type: "error" };\<close>
  \<^verbatim>\<open>strictFindUser\<close> and \<^verbatim>\<open>overwriteFindUser\<close> add the return type
  \<^verbatim>\<open>Result<Error, User>\<close>, \<^verbatim>\<open>constFindUser\<close> and \<^verbatim>\<open>overwriteFindUser\<close> add
  \<^verbatim>\<open>as const\<close> to both object literals.  The parameter is a \<^verbatim>\<open>string\<close>.
\<close>

definition findUser :: "string \<Rightarrow> runtime \<Rightarrow> ((error + jsval) \<times> runtime) option" where
  "findUser name s =
     (case array_find (name_is name) (users_now s) of
        None \<Rightarrow> None
      | Some (Inl e) \<Rightarrow> Some (Inl e, s)
      | Some (Inr user) \<Rightarrow>
          Some (Inr (if truthy user
                     then JObj [(''value'', user), (''_type'', JStr ''success'')]
                     else JObj [(''error'', JError ''Not found.''), (''_type'', JStr ''error'')]),
                s))"

definition strictFindUser :: "string \<Rightarrow> runtime \<Rightarrow> ((error + jsval) \<times> runtime) option" where
  "strictFindUser name s =
     (case array_find (name_is name) (users_now s) of
        None \<Rightarrow> None
      | Some (Inl e) \<Rightarrow> Some (Inl e, s)
      | Some (Inr user) \<Rightarrow>
          Some (Inr (if truthy user
                     then JObj [(''value'', user), (''_type'', JStr ''success'')]
                     else JObj [(''error'', JError ''Not found.''), (''_type'', JStr ''error'')]),
                s))"

definition constFindUser :: "string \<Rightarrow> runtime \<Rightarrow> ((error + jsval) \<times> runtime) option" where
  "constFindUser name s =
     (case array_find (name_is name) (users_now s) of
        None \<Rightarrow> None
      | Some (Inl e) \<Rightarrow> Some (Inl e, s)
      | Some (Inr user) \<Rightarrow>
          Some (Inr (if truthy user
                     then JObj [(''value'', user), (''_type'', JStr ''success'')]
                     else JObj [(''error'', JError ''Not found.''), (''_type'', JStr ''error'')]),
                s))"

definition overwriteFindUser :: "string \<Rightarrow> runtime \<Rightarrow> ((error + jsval) \<times> runtime) option" where
  "overwriteFindUser name s =
     (case array_find (name_is name) (users_now s) of
        None \<Rightarrow> None
      | Some (Inl e) \<Rightarrow> Some (Inl e, s)
      | Some (Inr user) \<Rightarrow>
          Some (Inr (if truthy user
                     then JObj [(''value'', user), (''_type'', JStr ''success'')]
                     else JObj [(''error'', JError ''Not found.''), (''_type'', JStr ''error'')]),
                s))"

text \<open>
  \<^verbatim>\<open>function getNewUser(): User { const u = { name: "B", email: "B@B", password: "..." }; return u; }\<close>
\<close>

definition getNewUser :: jsval where
  "getNewUser =
     (let u = JObj [(''name'', JStr ''B''), (''email'', JStr ''B@B''),
                    (''password'', JStr ''YOU SHOULD NOT SEE IT!!!'')]
      in u)"

section \<open>Type guards\<close>

text \<open>
  \<^verbatim>\<open>let admin: Admin = { name: "A", email: "A@A", role: "Administrator" }\<close>
\<close>

definition admin :: jsval where
  "admin = JObj [(''name'', JStr ''A''), (''email'', JStr ''A@A''), (''role'', JStr ''Administrator'')]"

text \<open>
  A function body is the list of its statements.  A statement either throws, or returns
  a value (\<open>Some\<close>), or hands over to the next statement (\<open>None\<close>).  \<open>run_block\<close>
  runs the statements in order and reports, with the outcome, the numbers of the
  statements it has evaluated; a body that runs off its end returns nothing.
\<close>

type_synonym stmt = "jsval \<Rightarrow> error + bool option"

fun run_block :: "stmt list \<Rightarrow> nat \<Rightarrow> jsval \<Rightarrow> nat list \<times> (error + bool option)" where
  "run_block [] k u = ([], Inr None)"
| "run_block (st # rest) k u =
     (case st u of
        Inl e \<Rightarrow> ([k], Inl e)
      | Inr (Some b) \<Rightarrow> ([k], Inr (Some b))
      | Inr None \<Rightarrow> (case run_block rest (Suc k) u of (evaluated, r) \<Rightarrow> (k # evaluated, r)))"

text \<open>
  The four statements of \<^verbatim>\<open>isAdmin\<close>:
  \<^verbatim>\<open>if ((u as any).role) { return true; }\<close>,
  \<^verbatim>\<open>if ((u as Admin).role) { return true; }\<close>,
  \<^verbatim>\<open>return false;\<close> and
  \<^verbatim>\<open>return "role" in u;\<close>.
  Both casts are erased: the first two statements read the same property.
\<close>

definition isAdmin_any_role :: stmt where
  "isAdmin_any_role u =
     (case get_prop u ''role'' of
        Inl e \<Rightarrow> Inl e
      | Inr role \<Rightarrow> Inr (if truthy role then Some True else None))"

definition isAdmin_Admin_role :: stmt where
  "isAdmin_Admin_role u =
     (case get_prop u ''role'' of
        Inl e \<Rightarrow> Inl e
      | Inr role \<Rightarrow> Inr (if truthy role then Some True else None))"

definition isAdmin_return_false :: stmt where
  "isAdmin_return_false u = Inr (Some False)"

definition isAdmin_role_in :: stmt where
  "isAdmin_role_in u =
     (case has_property ''role'' u of Inl e \<Rightarrow> Inl e | Inr b \<Rightarrow> Inr (Some b))"

definition isAdmin_body :: "stmt list" where
  "isAdmin_body = [isAdmin_any_role, isAdmin_Admin_role, isAdmin_return_false, isAdmin_role_in]"

text \<open>
  \<open>isAdmin u\<close> is the pair of the statements evaluated, numbered from \<open>1\<close>, and the
  outcome of the call.
\<close>

definition isAdmin :: "jsval \<Rightarrow> nat list \<times> (error + bool option)" where
  "isAdmin u = run_block isAdmin_body 1 u"

section \<open>Runs of the snippets\<close>

text \<open>
  A run is a sequence of calls of the functions above, started after the module has
  loaded.  \<open>run\<close> gives the state after a call, and \<open>None\<close> when the call does not
  come back.  A function that takes no state cannot change one.
\<close>

datatype call =
    Call_warnUser jsval
  | Call_getUser "bool option"
  | Call_getUser_plain
  | Call_findUser_in "jsval list"
  | Call_n1
  | Call_n2
  | Call_n3
  | Call_findUser string
  | Call_strictFindUser string
  | Call_constFindUser string
  | Call_overwriteFindUser string
  | Call_getNewUser
  | Call_isAdmin jsval

fun run :: "call \<Rightarrow> runtime \<Rightarrow> runtime option" where
  "run (Call_warnUser u) s = Some (snd (warnUser u s))"
| "run (Call_getUser arg) s = (let r = getUser arg in Some s)"
| "run Call_getUser_plain s = (let r = getUser_plain in Some s)"
| "run (Call_findUser_in us) s = map_option (\<lambda>r. s) (findUser_in us)"
| "run Call_n1 s = map_option snd (n1 s)"
| "run Call_n2 s = map_option snd (n2 s)"
| "run Call_n3 s = map_option snd (n3 s)"
| "run (Call_findUser name) s = map_option snd (findUser name s)"
| "run (Call_strictFindUser name) s = map_option snd (strictFindUser name s)"
| "run (Call_constFindUser name) s = map_option snd (constFindUser name s)"
| "run (Call_overwriteFindUser name) s = map_option snd (overwriteFindUser name s)"
| "run Call_getNewUser s = (let r = getNewUser in Some s)"
| "run (Call_isAdmin u) s = (let r = isAdmin u in Some s)"

inductive reachable :: "runtime \<Rightarrow> bool" where
  loaded: "reachable module_load"
| called: "reachable s \<Longrightarrow> run c s = Some s' \<Longrightarrow> reachable s'"

section \<open>The loops return\<close>

text \<open>
  Each loop ends after at most one step per element, with the result of the recursion on
  the list.
\<close>

lemma find_from_first_match: "find_from p xs k = Some (first_match p (drop k xs))"
proof (induction "length xs - k" arbitrary: k)
  case 0
  then show ?case by (subst find_from.simps) simp
next
  case (Suc n)
  then have lt: "k < length xs" and n: "n = length xs - Suc k" by auto
  have d: "drop k xs = xs ! k # drop (Suc k) xs"
    using lt by (simp add: Cons_nth_drop_Suc)
  show ?case
    by (subst find_from.simps) (simp add: lt d Suc.hyps(1)[OF n] split: sum.split)
qed

lemma array_find_first_match: "array_find p xs = Some (first_match p xs)"
  by (simp add: array_find_def find_from_first_match)

lemma reduce_from_fold_result:
  "reduce_from f xs k acc = Some (fold_result f (drop k xs) acc)"
proof (induction "length xs - k" arbitrary: k acc)
  case 0
  then show ?case by (subst reduce_from.simps) simp
next
  case (Suc n)
  then have lt: "k < length xs" and n: "n = length xs - Suc k" by auto
  have d: "drop k xs = xs ! k # drop (Suc k) xs"
    using lt by (simp add: Cons_nth_drop_Suc)
  show ?case
    by (subst reduce_from.simps) (simp add: lt d Suc.hyps(1)[OF n] split: sum.split)
qed

lemma array_reduce_fold_result: "array_reduce f init xs = Some (fold_result f xs init)"
  by (simp add: array_reduce_def reduce_from_fold_result)

section \<open>What the types say about a value\<close>

lemma has_typed_cases:
  assumes "has_typed k T v"
  obtains fs x where "v = JObj fs" and "map_of fs k = Some x" and "T x"
  using assms by (cases v) (auto split: option.splits)

lemma is_string_cases:
  assumes "is_string v"
  obtains s where "v = JStr s"
  using assms by (cases v) auto

lemma User_fields:
  assumes "User u"
  obtains fs n e where "u = JObj fs" and "map_of fs ''name'' = Some (JStr n)"
    and "map_of fs ''email'' = Some (JStr e)"
proof -
  from assms have a: "has_typed ''name'' is_string u" and b: "has_typed ''email'' is_string u"
    by (simp_all add: User_def)
  from a obtain fs x where u: "u = JObj fs" and x: "map_of fs ''name'' = Some x" "is_string x"
    by (rule has_typed_cases)
  from b u obtain y where y: "map_of fs ''email'' = Some y" "is_string y"
    by (auto split: option.splits)
  from x y obtain n e where "x = JStr n" "y = JStr e"
    by (auto elim!: is_string_cases)
  with u x y that show thesis by blast
qed

lemma map_of_key: "map_of fs k = Some x \<Longrightarrow> k \<in> fst ` set fs"
  by (induction fs) (auto split: if_splits)

lemma Success_tag:
  "Success T v \<Longrightarrow> get_prop v ''_type'' = Inr (JStr ''success'') \<and> has_property ''value'' v = Inr True"
  unfolding Success_def
  by (auto elim!: has_typed_cases simp: is_literal_def map_of_key)

lemma Error_tag:
  "Error E v \<Longrightarrow> get_prop v ''_type'' = Inr (JStr ''error'') \<and> has_property ''error'' v = Inr True"
  unfolding Error_def
  by (auto elim!: has_typed_cases simp: is_literal_def map_of_key)

section \<open>The lookups on an array of users\<close>

lemma name_is_User:
  assumes "User u"
  shows "name_is name u = Inr (get_prop u ''name'' = Inr (JStr name))"
  using assms by (auto elim!: User_fields simp: name_is_def loose_eq_def)

lemma first_match_name_is:
  "list_all User xs \<Longrightarrow>
   first_match (name_is name) xs =
     Inr (case List.find (\<lambda>u. get_prop u ''name'' = Inr (JStr name)) xs of
            None \<Rightarrow> JUndefined | Some u \<Rightarrow> u)"
  by (induction xs) (simp_all add: name_is_User)

lemma find_User_truthy:
  "list_all User xs \<Longrightarrow> List.find P xs = Some u \<Longrightarrow> truthy u"
  by (induction xs) (auto elim!: User_fields split: if_splits)

lemma find_result_shape:
  assumes "list_all User (users_now s)" and "strictFindUser name s = Some (Inr r, s')"
  shows "Result JsError User r
         \<and> (has_property ''value'' r = Inr True) \<noteq> (has_property ''error'' r = Inr True)"
proof -
  let ?f = "List.find (\<lambda>u. get_prop u ''name'' = Inr (JStr name)) (users_now s)"
  show ?thesis
  proof (cases ?f)
    case None
    with assms show ?thesis
      by (auto simp: strictFindUser_def array_find_first_match first_match_name_is
            Result_def Error_def is_literal_def)
  next
    case (Some u)
    then have "u \<in> set (users_now s)" by (auto simp: find_Some_iff)
    with assms(1) have "User u" by (simp add: list_all_iff)
    moreover have "truthy u" using assms(1) Some by (rule find_User_truthy)
    ultimately show ?thesis using assms Some
      by (auto simp: strictFindUser_def array_find_first_match first_match_name_is
            Result_def Success_def is_literal_def)
  qed
qed

lemma strictFindUser_users:
  assumes "users_now s = users"
  shows "strictFindUser name s =
           Some (Inr (if name = ''A'' then JObj [(''value'', users ! 0), (''_type'', JStr ''success'')]
                      else if name = ''B'' then JObj [(''value'', users ! 1), (''_type'', JStr ''success'')]
                      else JObj [(''error'', JError ''Not found.''), (''_type'', JStr ''error'')]),
                 s)"
  using assms
  by (simp add: strictFindUser_def array_find_first_match users_def name_is_def loose_eq_def)

lemma fold_with_id_Users:
  "list_all User xs \<Longrightarrow>
   \<exists>v. fold_result
         (\<lambda>acc current. case with_id current of Inl e \<Rightarrow> Inl e | Inr item \<Rightarrow> Inr (acc @ [item]))
         xs acc = Inr v"
proof (induction xs arbitrary: acc)
  case Nil
  show ?case by simp
next
  case (Cons x xs)
  then have "User x" and "list_all User xs" by simp_all
  from \<open>User x\<close> obtain fs where "x = JObj fs" by (auto elim: User_fields)
  then show ?case using Cons.IH [OF \<open>list_all User xs\<close>] by (simp add: with_id_def)
qed

lemma typed_calls_return_normally:
  assumes "list_all User (users_now s)"
  shows "(\<exists>v. findUser name s = Some (Inr v, s)) \<and> (\<exists>v. strictFindUser name s = Some (Inr v, s))
     \<and> (\<exists>v. constFindUser name s = Some (Inr v, s))
     \<and> (\<exists>v. overwriteFindUser name s = Some (Inr v, s))
     \<and> (\<exists>v. n1 s = Some (Inr v, s)) \<and> (\<exists>v. n2 s = Some (Inr v, s))
     \<and> (\<exists>v. n3 s = Some (Inr v, s))"
  using assms fold_with_id_Users [OF assms, of "[]"]
  by (auto simp: findUser_def strictFindUser_def constFindUser_def overwriteFindUser_def
      n1_def n2_def n3_def array_find_first_match first_match_name_is array_reduce_fold_result)

lemma findUser_in_Users: "list_all User us \<Longrightarrow> \<exists>v. findUser_in us = Some (Inr v)"
  by (simp add: findUser_in_def array_find_first_match first_match_name_is)

section \<open>The type guard, statement by statement\<close>

lemma isAdmin_eval:
  "isAdmin u =
     (if is_nullish u then ([1], Inl TypeError)
      else case get_prop u ''role'' of
             Inr role \<Rightarrow> if truthy role then ([1], Inr (Some True)) else ([1, 2, 3], Inr (Some False))
           | Inl e \<Rightarrow> ([1], Inl e))"
  by (cases u)
     (simp_all add: isAdmin_def isAdmin_body_def isAdmin_any_role_def isAdmin_Admin_role_def
        isAdmin_return_false_def)

text \<open>
  The fourth statement is live code for \<open>run_block\<close>: with \<^verbatim>\<open>return false\<close> taken
  out of the body, it is evaluated and decides the result.
\<close>

lemma isAdmin_without_return_false:
  "run_block [isAdmin_any_role, isAdmin_Admin_role, isAdmin_role_in] 1 (users ! 0)
     = ([1, 2, 3], Inr (Some False))"
  by (simp add: isAdmin_any_role_def isAdmin_Admin_role_def isAdmin_role_in_def users_def)

section \<open>Calls and the state\<close>

lemma to_string_outcome: "to_string v = Inl TypeError \<or> (\<exists>text. to_string v = Inr text)"
  by (cases v) simp_all

lemma get_prop_outcome: "get_prop u k = Inl TypeError \<or> (\<exists>v. get_prop u k = Inr v)"
  by (cases u) simp_all

lemma warnUser_outcome: "fst (warnUser u s) \<in> {Inl TypeError, Inr JUndefined}"
proof -
  consider "get_prop u ''name'' = Inl TypeError"
    | n where "get_prop u ''name'' = Inr n" "get_prop u ''email'' = Inl TypeError"
    | n e where "get_prop u ''name'' = Inr n" "get_prop u ''email'' = Inr e"
        "to_string n = Inl TypeError"
    | n e a where "get_prop u ''name'' = Inr n" "get_prop u ''email'' = Inr e"
        "to_string n = Inr a" "to_string e = Inl TypeError"
    | n e a b where "get_prop u ''name'' = Inr n" "get_prop u ''email'' = Inr e"
        "to_string n = Inr a" "to_string e = Inr b"
    using get_prop_outcome [of u "''name''"] get_prop_outcome [of u "''email''"]
      to_string_outcome by metis
  then show ?thesis by cases (simp_all add: warnUser_def)
qed

text \<open>
  A name that is an object with a property \<^verbatim>\<open>toString\<close> of its own cannot be put
  into the greeting: the call throws at the template literal and writes nothing.
\<close>

lemma warnUser_unprintable_name:
  "warnUser (JObj [(''name'', JObj [(''toString'', JStr ''x'')]), (''email'', JStr ''e'')]) s
     = (Inl TypeError, s)"
  by (simp add: warnUser_def)

lemma run_returns: "\<exists>s'. run c s = Some s'"
  by (cases c)
     (simp_all add: findUser_in_def n1_def n2_def n3_def findUser_def strictFindUser_def
        constFindUser_def overwriteFindUser_def array_find_first_match
        array_reduce_fold_result split: sum.split)

lemma run_keeps_users: "run c s = Some s' \<Longrightarrow> users_now s' = users_now s"
  by (cases c)
     (auto simp: warnUser_def console_log_def n1_def n2_def n3_def findUser_def
        strictFindUser_def constFindUser_def overwriteFindUser_def
        split: sum.splits option.splits)

section \<open>The properties of the specification\<close>

text \<open>
  C1: the structural check \<^verbatim>\<open>"role" in u\<close>, the fourth statement of \<^verbatim>\<open>isAdmin\<close>,
  is never evaluated, whatever \<open>u\<close> is.  For every \<open>u\<close> other than \<^verbatim>\<open>null\<close> and
  \<^verbatim>\<open>undefined\<close>, so for every \<open>User\<close>, the call returns a boolean from one of the
  first three statements; on \<^verbatim>\<open>null\<close> and \<^verbatim>\<open>undefined\<close> the first statement throws.
\<close>

theorem isAdmin_role_in_never_evaluated:
  "4 \<notin> set (fst (isAdmin u))
   \<and> (if is_nullish u then isAdmin u = ([1], Inl TypeError)
      else (\<exists>b. snd (isAdmin u) = Inr (Some b))
           \<and> fst (isAdmin u) \<noteq> [] \<and> last (fst (isAdmin u)) \<in> {1, 2, 3})"
  by (cases u) (auto simp: isAdmin_eval)

text \<open>
  C2, as the types have it: a value of type \<open>Result E T\<close> has exactly one of the types
  \<open>Success T\<close> and \<open>Error E\<close>, and its \<^verbatim>\<open>_type\<close> tag alone says which; a
  \<open>Success\<close> has a \<^verbatim>\<open>value\<close> and an \<open>Error\<close> has an \<^verbatim>\<open>error\<close>.  The results
  that \<^verbatim>\<open>strictFindUser\<close> builds from an array of users are of type
  \<open>Result JsError User\<close> and have exactly one of the two properties.
\<close>

theorem Result_one_variant_by_tag:
  "(Result E T v \<longrightarrow>
      Success T v \<noteq> Error E v
      \<and> Success T v = (get_prop v ''_type'' = Inr (JStr ''success''))
      \<and> Error E v = (get_prop v ''_type'' = Inr (JStr ''error''))
      \<and> (Success T v \<longrightarrow> has_property ''value'' v = Inr True)
      \<and> (Error E v \<longrightarrow> has_property ''error'' v = Inr True))
   \<and> (list_all User (users_now s) \<and> strictFindUser name s = Some (Inr r, s') \<longrightarrow>
        Result JsError User r
        \<and> (has_property ''value'' r = Inr True) \<noteq> (has_property ''error'' r = Inr True))"
proof -
  have "Success T v \<noteq> Error E v
      \<and> Success T v = (get_prop v ''_type'' = Inr (JStr ''success''))
      \<and> Error E v = (get_prop v ''_type'' = Inr (JStr ''error''))
      \<and> (Success T v \<longrightarrow> has_property ''value'' v = Inr True)
      \<and> (Error E v \<longrightarrow> has_property ''error'' v = Inr True)" if "Result E T v"
    using that Success_tag [of T v] Error_tag [of E v] by (auto simp: Result_def)
  then show ?thesis using find_result_shape by blast
qed

theorem Result_one_variant_by_tag_witness:
  "Result JsError User (JObj [(''value'', users ! 0), (''_type'', JStr ''success'')])
   \<and> Success User (JObj [(''value'', users ! 0), (''_type'', JStr ''success'')])
   \<and> \<not> Error JsError (JObj [(''value'', users ! 0), (''_type'', JStr ''success'')])
   \<and> list_all User (users_now module_load)
   \<and> strictFindUser ''A'' module_load
       = Some (Inr (JObj [(''value'', users ! 0), (''_type'', JStr ''success'')]), module_load)
   \<and> has_property ''value'' (JObj [(''value'', users ! 0), (''_type'', JStr ''success'')]) = Inr True
   \<and> has_property ''error'' (JObj [(''value'', users ! 0), (''_type'', JStr ''success'')]) \<noteq> Inr True"
proof -
  let ?r = "JObj [(''value'', users ! 0), (''_type'', JStr ''success'')]"
  have t: "list_all User (users_now module_load)"
    by (simp add: module_load_def users_def User_def)
  have f: "strictFindUser ''A'' module_load = Some (Inr ?r, module_load)"
    by (simp add: strictFindUser_def array_find_first_match module_load_def users_def
          name_is_def loose_eq_def)
  have r: "Result JsError User ?r"
    by (simp add: Result_def Success_def User_def users_def is_literal_def)
  show ?thesis
    using Result_one_variant_by_tag [of JsError User ?r module_load "''A''" ?r module_load] t f r
    by simp
qed

text \<open>
  The types do not exclude further properties: an object tagged \<^verbatim>\<open>"success"\<close> that
  has a \<^verbatim>\<open>value\<close> and an \<^verbatim>\<open>error\<close> is a \<open>Success\<close>, hence a \<open>Result\<close>, that
  carries both.
\<close>

theorem Result_value_and_error_counterexample:
  "Result JsError User
     (JObj [(''_type'', JStr ''success''), (''value'', users ! 0), (''error'', JError ''Not found.'')])
   \<and> has_property ''value''
       (JObj [(''_type'', JStr ''success''), (''value'', users ! 0), (''error'', JError ''Not found.'')])
       = Inr True
   \<and> has_property ''error''
       (JObj [(''_type'', JStr ''success''), (''value'', users ! 0), (''error'', JError ''Not found.'')])
       = Inr True"
  by (simp add: Result_def Success_def User_def users_def is_literal_def)

text \<open>
  C3: the exported constant \<open>users\<close> is a sequence of exactly two values of type
  \<open>User\<close>; the first is \<^verbatim>\<open>{name: "A", email: "A@A"}\<close> and the second is
  \<^verbatim>\<open>{name: "B", email: "B@B"}\<close>, each with these two properties and no other.
\<close>

theorem users_two_literal_entries:
  "length users = 2
   \<and> users ! 0 = JObj [(''name'', JStr ''A''), (''email'', JStr ''A@A'')]
   \<and> users ! 1 = JObj [(''name'', JStr ''B''), (''email'', JStr ''B@B'')]
   \<and> list_all User users"
  by (simp add: users_def User_def)

text \<open>
  C4: no shape is checked when the program runs.  \<^verbatim>\<open>getNewUser\<close>, declared to return
  a \<open>User\<close>, returns the object it built, which has the name \<^verbatim>\<open>"B"\<close>, the email
  \<^verbatim>\<open>"B@B"\<close> and still the property \<^verbatim>\<open>password\<close> with its value.  Likewise
  \<^verbatim>\<open>warnUser\<close> runs on an object that is no \<open>User\<close>, \<^verbatim>\<open>isAdmin\<close> answers
  \<^verbatim>\<open>true\<close> for a value that is no \<open>Admin\<close>, and \<^verbatim>\<open>strictFindUser\<close> wraps
  whatever the array holds, also a value that is no \<open>User\<close>.
\<close>

theorem getNewUser_keeps_password:
  "getNewUser =
     JObj [(''name'', JStr ''B''), (''email'', JStr ''B@B''),
           (''password'', JStr ''YOU SHOULD NOT SEE IT!!!'')]
   \<and> User getNewUser
   \<and> get_prop getNewUser ''name'' = Inr (JStr ''B'')
   \<and> get_prop getNewUser ''email'' = Inr (JStr ''B@B'')
   \<and> has_property ''password'' getNewUser = Inr True
   \<and> get_prop getNewUser ''password'' = Inr (JStr ''YOU SHOULD NOT SEE IT!!!'')
   \<and> getNewUser \<noteq> users ! 1
   \<and> \<not> User (JObj []) \<and> fst (warnUser (JObj []) s) = Inr JUndefined
   \<and> \<not> Admin (JObj [(''role'', JNum 1)])
   \<and> snd (isAdmin (JObj [(''role'', JNum 1)])) = Inr (Some True)
   \<and> \<not> Result JsError User (JObj [(''value'', JObj [(''name'', JStr ''Z'')]), (''_type'', JStr ''success'')])
   \<and> strictFindUser ''Z'' \<lparr>users_now = [JObj [(''name'', JStr ''Z'')]], console = []\<rparr>
       = Some (Inr (JObj [(''value'', JObj [(''name'', JStr ''Z'')]), (''_type'', JStr ''success'')]),
               \<lparr>users_now = [JObj [(''name'', JStr ''Z'')]], console = []\<rparr>)"
proof -
  have g: "getNewUser =
     JObj [(''name'', JStr ''B''), (''email'', JStr ''B@B''),
           (''password'', JStr ''YOU SHOULD NOT SEE IT!!!'')]"
    by (simp add: getNewUser_def)
  have w: "\<not> User (JObj []) \<and> fst (warnUser (JObj []) s) = Inr JUndefined"
    by (simp add: User_def warnUser_def)
  have a: "\<not> Admin (JObj [(''role'', JNum 1)])
     \<and> snd (isAdmin (JObj [(''role'', JNum 1)])) = Inr (Some True)"
    by (simp add: Admin_def User_def isAdmin_eval)
  have r: "\<not> Result JsError User
               (JObj [(''value'', JObj [(''name'', JStr ''Z'')]), (''_type'', JStr ''success'')])"
    by (simp add: Result_def Success_def Error_def User_def is_literal_def)
  have f: "strictFindUser ''Z'' \<lparr>users_now = [JObj [(''name'', JStr ''Z'')]], console = []\<rparr>
       = Some (Inr (JObj [(''value'', JObj [(''name'', JStr ''Z'')]), (''_type'', JStr ''success'')]),
               \<lparr>users_now = [JObj [(''name'', JStr ''Z'')]], console = []\<rparr>)"
    by (simp add: strictFindUser_def array_find_first_match name_is_def loose_eq_def)
  show ?thesis
    unfolding g using w a r f by (simp add: User_def users_def)
qed

text \<open>
  C5: \<^verbatim>\<open>null\<close> is no \<open>User\<close>, and \<^verbatim>\<open>warnUser(null)\<close> throws a \<open>TypeError\<close> at
  the destructuring, before anything is written; so does \<^verbatim>\<open>warnUser(undefined)\<close>.  The
  destructuring throws on these two arguments and on no other.  Every \<open>User\<close> is
  neither of them, and on a \<open>User\<close> the call returns.  (What the compiler accepts under
  either setting of its strict null checks is not part of the source.)
\<close>

theorem warnUser_null_throws:
  "\<not> User JNull
   \<and> warnUser JNull s = (Inl TypeError, s)
   \<and> warnUser JUndefined s = (Inl TypeError, s)
   \<and> (get_prop u ''name'' = Inl TypeError) = is_nullish u
   \<and> (is_nullish u \<longrightarrow> warnUser u s = (Inl TypeError, s))
   \<and> (User u \<longrightarrow> \<not> is_nullish u \<and> fst (warnUser u s) = Inr JUndefined)"
proof -
  have a: "(get_prop u ''name'' = Inl TypeError) = is_nullish u"
    by (cases u) simp_all
  have n: "warnUser u s = (Inl TypeError, s)" if "is_nullish u"
    using that by (cases u) (simp_all add: warnUser_def)
  have b: "\<not> is_nullish u \<and> fst (warnUser u s) = Inr JUndefined" if "User u"
    using that by (auto elim!: User_fields simp: warnUser_def)
  have c: "\<not> User JNull" by (simp add: User_def)
  have d: "warnUser JNull s = (Inl TypeError, s)" "warnUser JUndefined s = (Inl TypeError, s)"
    by (simp_all add: warnUser_def)
  show ?thesis using a n b c d by simp
qed

theorem warnUser_null_throws_witness:
  "User (users ! 0)
   \<and> warnUser (users ! 0) module_load
       = (Inr JUndefined,
          \<lparr>users_now = users, console = [''Hi A! We're warning about something on A@A'']\<rparr>)
   \<and> is_nullish JNull
   \<and> warnUser JNull module_load = (Inl TypeError, module_load)"
proof -
  have u: "User (users ! 0)" by (simp add: users_def User_def)
  have w: "warnUser (users ! 0) module_load
       = (Inr JUndefined,
          \<lparr>users_now = users, console = [''Hi A! We're warning about something on A@A'']\<rparr>)"
    by (simp add: warnUser_def users_def module_load_def console_log_def)
  note t = warnUser_null_throws [where s = module_load and u = "users ! 0"]
  note z = warnUser_null_throws [where s = module_load and u = JNull]
  have r: "fst (warnUser (users ! 0) module_load) = Inr JUndefined"
    using t u by blast
  have e: "warnUser JNull module_load = (Inl TypeError, module_load)"
    using z by simp
  show ?thesis using u w r e by simp
qed

text \<open>
  C6: every \<open>Admin\<close> is a \<open>User\<close>: its \<^verbatim>\<open>name\<close> and \<^verbatim>\<open>email\<close> are strings, the
  object made of these two properties is a \<open>User\<close>, and \<^verbatim>\<open>warnUser\<close>, which expects
  a \<open>User\<close>, greets it.
\<close>

theorem Admin_is_User:
  "Admin a \<Longrightarrow>
     User a
     \<and> (\<exists>n e. get_prop a ''name'' = Inr (JStr n) \<and> get_prop a ''email'' = Inr (JStr e)
            \<and> User (JObj [(''name'', JStr n), (''email'', JStr e)])
            \<and> warnUser a s
                = (Inr JUndefined,
                   console_log (''Hi '' @ n @ ''! We're warning about something on '' @ e) s))"
proof -
  assume "Admin a"
  then have u: "User a" by (simp add: Admin_def)
  then obtain fs n e where "a = JObj fs" "map_of fs ''name'' = Some (JStr n)"
      "map_of fs ''email'' = Some (JStr e)"
    by (rule User_fields)
  then have "get_prop a ''name'' = Inr (JStr n) \<and> get_prop a ''email'' = Inr (JStr e)
            \<and> User (JObj [(''name'', JStr n), (''email'', JStr e)])
            \<and> warnUser a s
                = (Inr JUndefined,
                   console_log (''Hi '' @ n @ ''! We're warning about something on '' @ e) s)"
    by (simp add: warnUser_def User_def)
  with u show ?thesis by blast
qed

theorem Admin_is_User_witness:
  "Admin admin \<and> User admin
   \<and> fst (warnUser admin module_load) = Inr JUndefined"
proof -
  have a: "Admin admin" by (simp add: admin_def Admin_def User_def)
  from Admin_is_User [OF a, of module_load] a show ?thesis by auto
qed

text \<open>
  C7: every function of the source comes back on every input and from every state.  The
  functions that walk an array (\<^verbatim>\<open>find\<close>, \<^verbatim>\<open>reduce\<close>) yield \<open>Some\<close> result; the
  ones without a loop return a value or throw a \<open>TypeError\<close>.
\<close>

theorem every_function_returns:
  "(\<exists>r. findUser name s = Some r) \<and> (\<exists>r. strictFindUser name s = Some r)
   \<and> (\<exists>r. constFindUser name s = Some r) \<and> (\<exists>r. overwriteFindUser name s = Some r)
   \<and> (\<exists>r. findUser_in us = Some r)
   \<and> (\<exists>r. n1 s = Some r) \<and> (\<exists>r. n2 s = Some r) \<and> (\<exists>r. n3 s = Some r)
   \<and> (\<exists>r. array_find p xs = Some r) \<and> (\<exists>r. array_reduce f init xs = Some r)
   \<and> fst (warnUser u s) \<in> {Inl TypeError, Inr JUndefined}
   \<and> getUser arg \<in> {JNull, JObj [(''name'', JStr ''A''), (''email'', JStr ''A@A'')]}
   \<and> snd (isAdmin u) \<in> {Inl TypeError, Inr (Some True), Inr (Some False)}
   \<and> User getNewUser \<and> User getUser_plain
   \<and> (\<exists>s'. run c s = Some s')
   \<and> (list_all User (users_now s) \<longrightarrow>
        (\<exists>v. findUser name s = Some (Inr v, s)) \<and> (\<exists>v. strictFindUser name s = Some (Inr v, s))
        \<and> (\<exists>v. constFindUser name s = Some (Inr v, s))
        \<and> (\<exists>v. overwriteFindUser name s = Some (Inr v, s))
        \<and> (\<exists>v. n1 s = Some (Inr v, s)) \<and> (\<exists>v. n2 s = Some (Inr v, s))
        \<and> (\<exists>v. n3 s = Some (Inr v, s)))
   \<and> (list_all User us \<longrightarrow> (\<exists>v. findUser_in us = Some (Inr v)))"
proof -
  have w: "fst (warnUser u s) \<in> {Inl TypeError, Inr JUndefined}"
    by (rule warnUser_outcome)
  have g: "getUser arg \<in> {JNull, JObj [(''name'', JStr ''A''), (''email'', JStr ''A@A'')]}"
    by (simp add: getUser_def split: option.split)
  have i: "snd (isAdmin u) \<in> {Inl TypeError, Inr (Some True), Inr (Some False)}"
    by (cases u) (simp_all add: isAdmin_eval)
  have l: "(\<exists>r. findUser name s = Some r) \<and> (\<exists>r. strictFindUser name s = Some r)
   \<and> (\<exists>r. constFindUser name s = Some r) \<and> (\<exists>r. overwriteFindUser name s = Some r)
   \<and> (\<exists>r. findUser_in us = Some r)
   \<and> (\<exists>r. n1 s = Some r) \<and> (\<exists>r. n2 s = Some r) \<and> (\<exists>r. n3 s = Some r)"
    by (simp add: findUser_in_def n1_def n2_def n3_def findUser_def strictFindUser_def
        constFindUser_def overwriteFindUser_def array_find_first_match
        array_reduce_fold_result split: sum.split)
  have a: "(\<exists>r. array_find p xs = Some r) \<and> (\<exists>r. array_reduce f init xs = Some r)"
    by (simp add: array_find_first_match array_reduce_fold_result)
  have t: "User getNewUser \<and> User getUser_plain"
    by (simp add: getNewUser_def getUser_plain_def User_def)
  note r = run_returns [of c s]
  have n: "list_all User (users_now s) \<longrightarrow>
        (\<exists>v. findUser name s = Some (Inr v, s)) \<and> (\<exists>v. strictFindUser name s = Some (Inr v, s))
        \<and> (\<exists>v. constFindUser name s = Some (Inr v, s))
        \<and> (\<exists>v. overwriteFindUser name s = Some (Inr v, s))
        \<and> (\<exists>v. n1 s = Some (Inr v, s)) \<and> (\<exists>v. n2 s = Some (Inr v, s))
        \<and> (\<exists>v. n3 s = Some (Inr v, s))"
    by (rule impI) (rule typed_calls_return_normally)
  have m: "list_all User us \<longrightarrow> (\<exists>v. findUser_in us = Some (Inr v))"
    by (rule impI) (rule findUser_in_Users)
  have la: "(\<exists>r. findUser name s = Some r) \<and> (\<exists>r. strictFindUser name s = Some r)
   \<and> (\<exists>r. constFindUser name s = Some r) \<and> (\<exists>r. overwriteFindUser name s = Some r)
   \<and> (\<exists>r. findUser_in us = Some r)
   \<and> (\<exists>r. n1 s = Some r) \<and> (\<exists>r. n2 s = Some r) \<and> (\<exists>r. n3 s = Some r)
   \<and> (\<exists>r. array_find p xs = Some r) \<and> (\<exists>r. array_reduce f init xs = Some r)"
    using l a by (simp only: conj_assoc)
  show ?thesis
    using la w g i t r n m by (simp only: conj_assoc simp_thms)
qed

text \<open>The calls made after the module has loaded, on the exported array.\<close>

theorem every_function_returns_witness:
  "list_all User (users_now module_load)
   \<and> (\<exists>v. findUser ''A'' module_load = Some (Inr v, module_load))
   \<and> (\<exists>v. n1 module_load = Some (Inr v, module_load))
   \<and> list_all User users
   \<and> (\<exists>v. findUser_in users = Some (Inr v))"
proof -
  have t: "list_all User (users_now module_load)" and u: "list_all User users"
    by (simp_all add: module_load_def users_def User_def)
  note e = every_function_returns [where name = "''A''" and s = module_load and us = users
      and u = JNull and p = "\<lambda>u. Inr True" and xs = "[]" and f = "\<lambda>(acc :: jsval) u. Inr acc"
      and init = JNull and arg = None and c = Call_n1]
  note e16 = e [THEN conjunct2, THEN conjunct2, THEN conjunct2, THEN conjunct2, THEN conjunct2,
      THEN conjunct2, THEN conjunct2, THEN conjunct2, THEN conjunct2, THEN conjunct2,
      THEN conjunct2, THEN conjunct2, THEN conjunct2, THEN conjunct2, THEN conjunct2,
      THEN conjunct2]
  from e16 [THEN conjunct1, THEN mp, OF t] e16 [THEN conjunct2, THEN mp, OF u] t u
  show ?thesis by simp
qed

text \<open>
  C8: in every state a run can reach after the module has loaded, the array \<^verbatim>\<open>users\<close>
  holds its two initial elements, and every call made from there leaves it so.
\<close>

theorem users_never_mutated:
  "reachable s \<Longrightarrow>
     users_now s = users \<and> (\<forall>c s'. run c s = Some s' \<longrightarrow> users_now s' = users)"
proof (induction rule: reachable.induct)
  case loaded
  show ?case using run_keeps_users by (auto simp: module_load_def)
next
  case (called s c s')
  then show ?case using run_keeps_users by metis
qed

theorem users_never_mutated_witness:
  "reachable \<lparr>users_now = users, console = [''Hi A! We're warning about something on A@A'']\<rparr>
   \<and> users_now \<lparr>users_now = users, console = [''Hi A! We're warning about something on A@A'']\<rparr>
       = users
   \<and> run Call_n1 \<lparr>users_now = users, console = [''Hi A! We're warning about something on A@A'']\<rparr>
       = Some \<lparr>users_now = users, console = [''Hi A! We're warning about something on A@A'']\<rparr>"
proof -
  let ?s = "\<lparr>users_now = users, console = [''Hi A! We're warning about something on A@A'']\<rparr>"
  have "run (Call_warnUser (users ! 0)) module_load = Some ?s"
    by (simp add: warnUser_def users_def module_load_def console_log_def)
  with loaded have r: "reachable ?s" by (rule called)
  have n: "run Call_n1 ?s = Some ?s"
    by (simp add: n1_def array_reduce_fold_result)
  from users_never_mutated [OF r] r n show ?thesis by simp
qed

text \<open>
  C9: \<^verbatim>\<open>findUser\<close>, \<^verbatim>\<open>strictFindUser\<close>, \<^verbatim>\<open>constFindUser\<close> and
  \<^verbatim>\<open>overwriteFindUser\<close> return the same result for every name, in every state.  On
  an array of users it is the success record around the first user of that name, or the
  error record around \<^verbatim>\<open>Error("Not found.")\<close> when there is none.
\<close>

theorem find_variants_agree:
  "findUser name s = strictFindUser name s
   \<and> strictFindUser name s = constFindUser name s
   \<and> constFindUser name s = overwriteFindUser name s
   \<and> (list_all User (users_now s) \<longrightarrow>
        findUser name s =
          Some (Inr (case List.find (\<lambda>u. get_prop u ''name'' = Inr (JStr name)) (users_now s) of
                       Some user \<Rightarrow> JObj [(''value'', user), (''_type'', JStr ''success'')]
                     | None \<Rightarrow> JObj [(''error'', JError ''Not found.''), (''_type'', JStr ''error'')]),
                s))"
proof -
  have "findUser name s =
          Some (Inr (case List.find (\<lambda>u. get_prop u ''name'' = Inr (JStr name)) (users_now s) of
                       Some user \<Rightarrow> JObj [(''value'', user), (''_type'', JStr ''success'')]
                     | None \<Rightarrow> JObj [(''error'', JError ''Not found.''), (''_type'', JStr ''error'')]),
                s)" if t: "list_all User (users_now s)"
  proof (cases "List.find (\<lambda>u. get_prop u ''name'' = Inr (JStr name)) (users_now s)")
    case None
    with t show ?thesis
      by (simp add: findUser_def array_find_first_match first_match_name_is)
  next
    case (Some u)
    with t have "truthy u" by (rule find_User_truthy)
    with t Some show ?thesis
      by (simp add: findUser_def array_find_first_match first_match_name_is)
  qed
  then show ?thesis
    by (simp add: findUser_def strictFindUser_def constFindUser_def overwriteFindUser_def)
qed

theorem find_variants_agree_witness:
  "list_all User (users_now module_load)
   \<and> findUser ''B'' module_load
       = Some (Inr (JObj [(''value'', users ! 1), (''_type'', JStr ''success'')]), module_load)
   \<and> overwriteFindUser ''B'' module_load
       = Some (Inr (JObj [(''value'', users ! 1), (''_type'', JStr ''success'')]), module_load)
   \<and> constFindUser ''C'' module_load
       = Some (Inr (JObj [(''error'', JError ''Not found.''), (''_type'', JStr ''error'')]),
               module_load)"
proof -
  have t: "list_all User (users_now module_load)"
    by (simp add: module_load_def users_def User_def)
  have f: "List.find (\<lambda>u. get_prop u ''name'' = Inr (JStr ''B'')) (users_now module_load)
             = Some (users ! 1)"
    and g: "List.find (\<lambda>u. get_prop u ''name'' = Inr (JStr ''C'')) (users_now module_load) = None"
    by (simp_all add: module_load_def users_def)
  note B = find_variants_agree [of "''B''" module_load]
  note C = find_variants_agree [of "''C''" module_load]
  have b: "findUser ''B'' module_load
       = Some (Inr (JObj [(''value'', users ! 1), (''_type'', JStr ''success'')]), module_load)"
    using B [THEN conjunct2, THEN conjunct2, THEN conjunct2, THEN mp, OF t] f by simp
  have c: "findUser ''C'' module_load
       = Some (Inr (JObj [(''error'', JError ''Not found.''), (''_type'', JStr ''error'')]),
               module_load)"
    using C [THEN conjunct2, THEN conjunct2, THEN conjunct2, THEN mp, OF t] g by simp
  have b': "overwriteFindUser ''B'' module_load = findUser ''B'' module_load"
    by (rule trans [OF B [THEN conjunct2, THEN conjunct2, THEN conjunct1, symmetric]
          trans [OF B [THEN conjunct2, THEN conjunct1, symmetric] B [THEN conjunct1, symmetric]]])
  have c': "constFindUser ''C'' module_load = findUser ''C'' module_load"
    by (rule trans [OF C [THEN conjunct2, THEN conjunct1, symmetric] C [THEN conjunct1, symmetric]])
  show ?thesis using t b c by (simp add: b' c')
qed

text \<open>
  C10: with the exported array, \<^verbatim>\<open>strictFindUser(name)\<close> returns the error record with
  the message \<^verbatim>\<open>"Not found."\<close> exactly when no element of \<open>users\<close> has that name,
  that is when the name is neither \<^verbatim>\<open>"A"\<close> nor \<^verbatim>\<open>"B"\<close>; otherwise it returns the
  success record around the first element of that name.
\<close>

theorem strictFindUser_error_iff:
  "users_now s = users \<Longrightarrow>
     (strictFindUser name s
        = Some (Inr (JObj [(''error'', JError ''Not found.''), (''_type'', JStr ''error'')]), s))
       = (\<forall>u\<in>set users. get_prop u ''name'' \<noteq> Inr (JStr name))
     \<and> (\<forall>u\<in>set users. get_prop u ''name'' \<noteq> Inr (JStr name)) = (name \<noteq> ''A'' \<and> name \<noteq> ''B'')
     \<and> (\<exists>r. strictFindUser name s = Some (Inr r, s)
            \<and> Error JsError r = (name \<noteq> ''A'' \<and> name \<noteq> ''B'')
            \<and> Success User r = (name = ''A'' \<or> name = ''B''))
     \<and> (\<forall>user. List.find (\<lambda>u. get_prop u ''name'' = Inr (JStr name)) users = Some user \<longrightarrow>
           strictFindUser name s
             = Some (Inr (JObj [(''value'', user), (''_type'', JStr ''success'')]), s))
     \<and> strictFindUser ''A'' s
         = Some (Inr (JObj [(''value'', users ! 0), (''_type'', JStr ''success'')]), s)
     \<and> strictFindUser ''B'' s
         = Some (Inr (JObj [(''value'', users ! 1), (''_type'', JStr ''success'')]), s)"
proof -
  assume s: "users_now s = users"
  note f = strictFindUser_users [OF s]
  have q: "(\<forall>u\<in>set users. get_prop u ''name'' \<noteq> Inr (JStr name)) = (name \<noteq> ''A'' \<and> name \<noteq> ''B'')"
    by (auto simp: users_def)
  have e: "(strictFindUser name s
        = Some (Inr (JObj [(''error'', JError ''Not found.''), (''_type'', JStr ''error'')]), s))
       = (name \<noteq> ''A'' \<and> name \<noteq> ''B'')"
    by (simp add: f)
  have v: "\<exists>r. strictFindUser name s = Some (Inr r, s)
            \<and> Error JsError r = (name \<noteq> ''A'' \<and> name \<noteq> ''B'')
            \<and> Success User r = (name = ''A'' \<or> name = ''B'')"
    by (simp add: f Error_def Success_def User_def is_literal_def users_def)
  have u: "\<forall>user. List.find (\<lambda>u. get_prop u ''name'' = Inr (JStr name)) users = Some user \<longrightarrow>
           strictFindUser name s
             = Some (Inr (JObj [(''value'', user), (''_type'', JStr ''success'')]), s)"
    by (auto simp: f users_def split: if_splits)
  have a: "strictFindUser ''A'' s
         = Some (Inr (JObj [(''value'', users ! 0), (''_type'', JStr ''success'')]), s)"
    and b: "strictFindUser ''B'' s
         = Some (Inr (JObj [(''value'', users ! 1), (''_type'', JStr ''success'')]), s)"
    by (simp_all add: f)
  show ?thesis
    unfolding e q using v u a b by (intro conjI refl) 
qed

theorem strictFindUser_error_iff_witness:
  "users_now module_load = users
   \<and> strictFindUser ''A'' module_load
       = Some (Inr (JObj [(''value'', users ! 0), (''_type'', JStr ''success'')]), module_load)
   \<and> strictFindUser ''B'' module_load
       = Some (Inr (JObj [(''value'', users ! 1), (''_type'', JStr ''success'')]), module_load)
   \<and> strictFindUser ''Luciano'' module_load
       = Some (Inr (JObj [(''error'', JError ''Not found.''), (''_type'', JStr ''error'')]),
               module_load)"
proof -
  have s: "users_now module_load = users" by (simp add: module_load_def)
  note w = strictFindUser_error_iff [OF s, of "''Luciano''"]
  have n: "\<forall>u\<in>set users. get_prop u ''name'' \<noteq> Inr (JStr ''Luciano'')"
    by (simp add: users_def)
  have l: "strictFindUser ''Luciano'' module_load
       = Some (Inr (JObj [(''error'', JError ''Not found.''), (''_type'', JStr ''error'')]),
               module_load)"
    using w [THEN conjunct1] n by simp
  show ?thesis
    using s l w [THEN conjunct2, THEN conjunct2, THEN conjunct2, THEN conjunct2] by simp
qed

end
